theory Spec2Isabelle
  imports Main
begin

section \<open>Python strings\<close>

text \<open>
  Strings of the program are modelled as HOL strings. The model covers ASCII text: a
  \<^typ>\<open>char\<close> is one character of a Python \<open>str\<close>, and
  \<open>request.query_string.decode()\<close> is the identity.
\<close>

text \<open>\<open>s.split(c)\<close> for a one-character separator: never empty, empty pieces kept.\<close>

fun split_on :: "char \<Rightarrow> string \<Rightarrow> string list" where
  "split_on c [] = [[]]"
| "split_on c (x # xs) =
     (if x = c then [] # split_on c xs
      else (case split_on c xs of
              [] \<Rightarrow> [[x]]
            | w # ws \<Rightarrow> (x # w) # ws))"

text \<open>\<open>sep.join(xs)\<close>.\<close>

fun join :: "string \<Rightarrow> string list \<Rightarrow> string" where
  "join sep [] = []"
| "join sep [x] = x"
| "join sep (x # y # ys) = x @ sep @ join sep (y # ys)"

text \<open>\<open>s.split(c, 1)\<close> when \<open>c in s\<close>: the text before the first \<open>c\<close> and the text after it.\<close>

definition split1 :: "char \<Rightarrow> string \<Rightarrow> string \<times> string" where
  "split1 c s = (takeWhile (\<lambda>x. x \<noteq> c) s, drop 1 (dropWhile (\<lambda>x. x \<noteq> c) s))"

definition startswith :: "string \<Rightarrow> string \<Rightarrow> bool" where
  "startswith s p = (take (length p) s = p)"

definition ascii_uppercase :: string where
  "ascii_uppercase = ''ABCDEFGHIJKLMNOPQRSTUVWXYZ''"

definition ascii_lowercase :: string where
  "ascii_lowercase = ''abcdefghijklmnopqrstuvwxyz''"

definition lower_char :: "char \<Rightarrow> char" where
  "lower_char c = (case map_of (zip ascii_uppercase ascii_lowercase) c of
                     None \<Rightarrow> c
                   | Some d \<Rightarrow> d)"

text \<open>\<open>s.lower()\<close>.\<close>

definition lower :: "string \<Rightarrow> string" where
  "lower s = map lower_char s"

section \<open>The URL functions of the standard library\<close>

text \<open>
  \<open>app.py\<close> imports \<open>urljoin\<close> and \<open>urlparse\<close> from \<open>urllib.parse\<close>.
  They are modelled after CPython 3.11's \<open>urllib/parse.py\<close> for \<open>str\<close> arguments
  with \<open>allow_fragments=True\<close>. A parse that raises \<open>ValueError\<close> is \<open>Inl ValueError\<close>.
  Two checks of \<open>urlsplit\<close> are outside the model: \<open>_checknetloc\<close>, which only
  acts on a non-ASCII host, and \<open>_check_bracketed_host\<close>, which validates the address
  inside a well-bracketed IPv6 host.
\<close>

datatype error =
    Unauthorized
  | Forbidden
  | KeyError
  | ValueError
  | InvalidAssertion

record ParseResult =
  scheme :: string
  netloc :: string
  url_path :: string
  params :: string
  query :: string
  fragment :: string

definition uses_relative :: "string list" where
  "uses_relative = ['''', ''ftp'', ''http'', ''gopher'', ''nntp'', ''imap'',
                    ''wais'', ''file'', ''https'', ''shttp'', ''mms'',
                    ''prospero'', ''rtsp'', ''rtsps'', ''rtspu'', ''sftp'',
                    ''svn'', ''svn+ssh'', ''ws'', ''wss'']"

definition uses_netloc :: "string list" where
  "uses_netloc = ['''', ''ftp'', ''http'', ''gopher'', ''nntp'', ''telnet'',
                  ''imap'', ''wais'', ''file'', ''mms'', ''https'', ''shttp'',
                  ''snews'', ''prospero'', ''rtsp'', ''rtsps'', ''rtspu'', ''rsync'',
                  ''svn'', ''svn+ssh'', ''sftp'', ''nfs'', ''git'', ''git+ssh'',
                  ''ws'', ''wss'']"

definition uses_params :: "string list" where
  "uses_params = ['''', ''ftp'', ''hdl'', ''prospero'', ''http'', ''imap'',
                  ''https'', ''shttp'', ''rtsp'', ''rtsps'', ''rtspu'', ''sip'',
                  ''sips'', ''mms'', ''sftp'', ''tel'']"

definition scheme_chars :: string where
  "scheme_chars = ascii_lowercase @ ascii_uppercase @ ''0123456789'' @ ''+-.''"

text \<open>The characters \<open>_WHATWG_C0_CONTROL_OR_SPACE\<close>: code points 0 to 0x20.\<close>

definition c0_control_or_space :: "char \<Rightarrow> bool" where
  "c0_control_or_space c = ((of_char c :: nat) \<le> 32)"

text \<open>The characters \<open>_UNSAFE_URL_BYTES_TO_REMOVE\<close>: tab, carriage return, newline.\<close>

definition unsafe_url_byte :: "char \<Rightarrow> bool" where
  "unsafe_url_byte c = (c = CHR 0x09 \<or> c = CHR 0x0D \<or> c = CHR 0x0A)"

text \<open>\<open>s.strip(chars)\<close> on both ends.\<close>

definition strip_c0 :: "string \<Rightarrow> string" where
  "strip_c0 s = rev (dropWhile c0_control_or_space (rev (dropWhile c0_control_or_space s)))"

text \<open>
  \<open>_splitnetloc(url, 2)\<close>: the host part runs from position 2 to the first of
  \<open>/\<close>, \<open>?\<close>, \<open>#\<close>.
\<close>

definition splitnetloc :: "string \<Rightarrow> string \<times> string" where
  "splitnetloc url =
     (let rest = drop 2 url;
          is_delim = (\<lambda>c. c = CHR ''/'' \<or> c = CHR ''?'' \<or> c = CHR ''#'')
      in (takeWhile (\<lambda>c. \<not> is_delim c) rest, dropWhile (\<lambda>c. \<not> is_delim c) rest))"

definition urlsplit :: "string \<Rightarrow> string \<Rightarrow> error + (string \<times> string \<times> string \<times> string \<times> string)" where
  "urlsplit url0 scheme0 =
     (let url1 = filter (\<lambda>c. \<not> unsafe_url_byte c) (dropWhile c0_control_or_space url0);
          scheme1 = filter (\<lambda>c. \<not> unsafe_url_byte c) (strip_c0 scheme0);
          pre = takeWhile (\<lambda>c. c \<noteq> CHR '':'') url1;
          has_scheme = (CHR '':'' \<in> set url1 \<and> pre \<noteq> [] \<and>
                        hd url1 \<in> set (ascii_lowercase @ ascii_uppercase) \<and>
                        (\<forall>c \<in> set pre. c \<in> set scheme_chars));
          scheme2 = (if has_scheme then lower pre else scheme1);
          url2 = (if has_scheme then drop (length pre + 1) url1 else url1);
          has_netloc = (take 2 url2 = ''//'');
          netloc2 = (if has_netloc then fst (splitnetloc url2) else '''');
          url3 = (if has_netloc then snd (splitnetloc url2) else url2)
      in if has_netloc \<and>
            ((CHR ''['' \<in> set netloc2 \<and> CHR '']'' \<notin> set netloc2) \<or>
             (CHR '']'' \<in> set netloc2 \<and> CHR ''['' \<notin> set netloc2))
         then Inl ValueError
         else
           (let fragment2 = (if CHR ''#'' \<in> set url3 then snd (split1 CHR ''#'' url3) else '''');
                url4 = (if CHR ''#'' \<in> set url3 then fst (split1 CHR ''#'' url3) else url3);
                query2 = (if CHR ''?'' \<in> set url4 then snd (split1 CHR ''?'' url4) else '''');
                url5 = (if CHR ''?'' \<in> set url4 then fst (split1 CHR ''?'' url4) else url4)
            in Inr (scheme2, netloc2, url5, query2, fragment2)))"

text \<open>
  \<open>_splitparams(url)\<close>, called when \<open>;\<close> occurs in \<open>url\<close>: the parameters start at
  the first \<open>;\<close> of the last path segment.
\<close>

definition splitparams :: "string \<Rightarrow> string \<times> string" where
  "splitparams url =
     (if CHR ''/'' \<in> set url then
        (let last_seg = rev (takeWhile (\<lambda>c. c \<noteq> CHR ''/'') (rev url));
             head = take (length url - length last_seg) url
         in if CHR '';'' \<in> set last_seg
            then (head @ fst (split1 CHR '';'' last_seg), snd (split1 CHR '';'' last_seg))
            else (url, ''''))
      else split1 CHR '';'' url)"

definition urlparse :: "string \<Rightarrow> string \<Rightarrow> error + ParseResult" where
  "urlparse url scheme0 =
     (case urlsplit url scheme0 of
        Inl e \<Rightarrow> Inl e
      | Inr (scheme1, netloc1, url1, query1, fragment1) \<Rightarrow>
          (let has_params = (scheme1 \<in> set uses_params \<and> CHR '';'' \<in> set url1)
           in Inr \<lparr> scheme = scheme1, netloc = netloc1,
                     url_path = (if has_params then fst (splitparams url1) else url1),
                     params = (if has_params then snd (splitparams url1) else ''''),
                     query = query1, fragment = fragment1 \<rparr>))"

definition urlunsplit :: "string \<Rightarrow> string \<Rightarrow> string \<Rightarrow> string \<Rightarrow> string \<Rightarrow> string" where
  "urlunsplit scheme0 netloc0 url0 query0 fragment0 =
     (let url1 = (if netloc0 \<noteq> '''' \<or> (scheme0 \<noteq> '''' \<and> scheme0 \<in> set uses_netloc)
                     \<or> take 2 url0 = ''//''
                  then ''//'' @ netloc0 @
                       (if url0 \<noteq> '''' \<and> take 1 url0 \<noteq> ''/'' then ''/'' @ url0 else url0)
                  else url0);
          url2 = (if scheme0 \<noteq> '''' then scheme0 @ '':'' @ url1 else url1);
          url3 = (if query0 \<noteq> '''' then url2 @ ''?'' @ query0 else url2)
      in if fragment0 \<noteq> '''' then url3 @ ''#'' @ fragment0 else url3)"

definition urlunparse :: "ParseResult \<Rightarrow> string" where
  "urlunparse p =
     urlunsplit (scheme p) (netloc p)
       (if params p \<noteq> '''' then url_path p @ '';'' @ params p else url_path p)
       (query p) (fragment p)"

text \<open>The loop of \<open>urljoin\<close> over the path segments, \<open>resolved_path\<close> as accumulator.\<close>

fun resolve_segments :: "string list \<Rightarrow> string list \<Rightarrow> string list" where
  "resolve_segments resolved [] = resolved"
| "resolve_segments resolved (seg # segs) =
     (if seg = ''..'' then resolve_segments (butlast resolved) segs
      else if seg = ''.'' then resolve_segments resolved segs
      else resolve_segments (resolved @ [seg]) segs)"

text \<open>\<open>segments[1:-1] = filter(None, segments[1:-1])\<close>.\<close>

definition filter_inner :: "string list \<Rightarrow> string list" where
  "filter_inner segments =
     take 1 segments @ filter (\<lambda>s. s \<noteq> '''') (butlast (drop 1 segments))
       @ (if length segments \<ge> 2 then [last segments] else [])"

definition urljoin :: "string \<Rightarrow> string \<Rightarrow> error + string" where
  "urljoin base url =
     (if base = '''' then Inr url
      else if url = '''' then Inr base
      else
        (case urlparse base '''' of
           Inl e \<Rightarrow> Inl e
         | Inr b \<Rightarrow>
            (case urlparse url (scheme b) of
               Inl e \<Rightarrow> Inl e
             | Inr u \<Rightarrow>
                if scheme u \<noteq> scheme b \<or> scheme u \<notin> set uses_relative then Inr url
                else if scheme u \<in> set uses_netloc \<and> netloc u \<noteq> '''' then Inr (urlunparse u)
                else
                  (let netloc1 = (if scheme u \<in> set uses_netloc then netloc b else netloc u)
                   in if url_path u = '''' \<and> params u = '''' then
                        Inr (urlunparse (u \<lparr> netloc := netloc1, url_path := url_path b,
                                              params := params b,
                                              query := (if query u = '''' then query b else query u) \<rparr>))
                      else
                        (let base_parts0 = split_on CHR ''/'' (url_path b);
                             base_parts = (if last base_parts0 \<noteq> '''' then butlast base_parts0
                                           else base_parts0);
                             segments = (if take 1 (url_path u) = ''/''
                                         then split_on CHR ''/'' (url_path u)
                                         else filter_inner (base_parts @ split_on CHR ''/'' (url_path u)));
                             resolved0 = resolve_segments [] segments;
                             resolved_path = (if last segments = ''.'' \<or> last segments = ''..''
                                              then resolved0 @ ['''']
                                              else resolved0);
                             joined = join ''/'' resolved_path
                         in Inr (urlunparse (u \<lparr> netloc := netloc1,
                                                   url_path := (if joined = '''' then ''/'' else joined) \<rparr>)))))))"

section \<open>Rendering of Python values\<close>

text \<open>
  The second-factor flag held by the session: \<open>attributes.get('two_factor')\<close> is Python's
  \<open>None\<close> when the attribute is missing, and a Boolean otherwise.
\<close>

datatype flag = NoneVal | BoolVal bool

fun truthy :: "flag \<Rightarrow> bool" where
  "truthy NoneVal = False"
| "truthy (BoolVal b) = b"

text \<open>\<open>str(has_2fa)\<close>.\<close>

fun str_flag :: "flag \<Rightarrow> string" where
  "str_flag NoneVal = ''None''"
| "str_flag (BoolVal True) = ''True''"
| "str_flag (BoolVal False) = ''False''"

definition hexdigits :: string where
  "hexdigits = ''0123456789abcdef''"

text \<open>
  One character of \<open>repr(s)\<close> for an ASCII string, \<open>q\<close> the chosen quote: the quote and
  the backslash are escaped, tab, newline and carriage return are written with their
  letter, other control characters as a two-digit hexadecimal escape.
\<close>

definition repr_char :: "char \<Rightarrow> char \<Rightarrow> string" where
  "repr_char q c =
     (if c = q \<or> c = CHR 0x5C then [CHR 0x5C, c]
      else if c = CHR 0x09 then [CHR 0x5C, CHR ''t'']
      else if c = CHR 0x0A then [CHR 0x5C, CHR ''n'']
      else if c = CHR 0x0D then [CHR 0x5C, CHR ''r'']
      else if (of_char c :: nat) < 32 \<or> (of_char c :: nat) = 127
      then [CHR 0x5C, CHR ''x'', hexdigits ! ((of_char c :: nat) div 16),
            hexdigits ! ((of_char c :: nat) mod 16)]
      else [c])"

text \<open>\<open>repr(s)\<close>: single quotes, unless \<open>s\<close> has a single quote and no double quote.\<close>

definition repr_str :: "string \<Rightarrow> string" where
  "repr_str s =
     (let q = (if CHR 0x27 \<in> set s \<and> CHR 0x22 \<notin> set s then CHR 0x22 else CHR 0x27)
      in [q] @ concat (map (repr_char q) s) @ [q])"

text \<open>\<open>str(groups)\<close> for a list of strings.\<close>

definition str_list :: "string list \<Rightarrow> string" where
  "str_list xs = ''['' @ join '', '' (map repr_str xs) @ '']''"

text \<open>The value handed to \<open>flask.json.dumps\<close>, before serialisation.\<close>

datatype json = JNull | JBool bool | JStr string | JArr "json list" | JObj "(string \<times> json) list"

fun json_flag :: "flag \<Rightarrow> json" where
  "json_flag NoneVal = JNull"
| "json_flag (BoolVal b) = JBool b"

section \<open>Requests, sessions, responses\<close>

text \<open>
  The Flask request, as far as \<open>app.py\<close> reads it. \<open>args\<close> is the parsed query string
  (\<open>request.args\<close>, the first value of a repeated field first), \<open>query_string\<close> the raw
  one. \<open>headers\<close> is keyed by the lower-cased header name, since header lookup ignores
  case. \<open>accept_mimetypes\<close> holds the media types listed by the Accept header.
\<close>

record request =
  http_method :: string
  url_root :: string
  path :: string
  query_string :: string
  args :: "(string \<times> string) list"
  headers :: "string \<rightharpoonup> string"
  form :: "string \<rightharpoonup> string"
  accept_mimetypes :: "string list"

text \<open>\<open>request.headers[name]\<close> when \<open>name in request.headers\<close>, else \<open>None\<close>.\<close>

definition header :: "request \<Rightarrow> string \<Rightarrow> string option" where
  "header req name = headers req (lower name)"

text \<open>
  The cookie session: a dictionary with the keys \<open>userid\<close>, \<open>groups\<close> and
  \<open>has_2fa\<close>; \<open>None\<close> is a missing key. The user id is a string and the groups
  are a list of strings.
\<close>

record session_dict =
  userid :: "string option"
  groups :: "string list option"
  has_2fa :: "flag option"

text \<open>\<open>session.clear()\<close> leaves the empty dictionary.\<close>

definition empty_session :: session_dict where
  "empty_session = \<lparr> userid = None, groups = None, has_2fa = None \<rparr>"

datatype level = WARNING | ERROR

text \<open>What a view can change: the session and the records written to \<open>app.logger\<close>.\<close>

record app_state =
  session :: session_dict
  logger :: "(level \<times> string) list"

datatype body = TextBody string | JsonBody json

text \<open>
  \<open>Response(txt, status, headers)\<close>, and \<open>redirect(location)\<close>, which is a 302 response
  with that location.
\<close>

datatype response =
    Response body nat "(string \<times> string) list"
  | Redirect string


section \<open>The status view\<close>

definition wants_json :: "request \<Rightarrow> bool" where
  "wants_json req = (''application/json'' \<in> set (accept_mimetypes req))"

definition not_member_message :: "string \<Rightarrow> string \<Rightarrow> string" where
  "not_member_message uid g =
     uid @ '' not a member of '' @ g @ '' or SP can'' @ [CHR 0x27] @ ''t receive it''"

text \<open>
  The locals of \<open>status\<close>: \<open>session.get('groups', [])\<close>,
  \<open>'2fa' in request.path.split('/')\<close> and \<open>session.get('has_2fa', False)\<close>.
\<close>

definition get_groups :: "session_dict \<Rightarrow> string list" where
  "get_groups s = (case groups s of None \<Rightarrow> [] | Some gs \<Rightarrow> gs)"

definition wants_2fa :: "request \<Rightarrow> bool" where
  "wants_2fa req = (''2fa'' \<in> set (split_on CHR ''/'' (path req)))"

definition get_has_2fa :: "session_dict \<Rightarrow> flag" where
  "get_has_2fa s = (case has_2fa s of None \<Rightarrow> BoolVal False | Some f \<Rightarrow> f)"

definition status :: "string option \<Rightarrow> request \<Rightarrow> app_state \<Rightarrow> (error + response) \<times> app_state" where
  "status grp req st =
     (let groups0 = get_groups (session st);
          has_2fa0 = get_has_2fa (session st)
      in case userid (session st) of
           None \<Rightarrow> (Inl Unauthorized, st)
         | Some uid \<Rightarrow>
             if uid = '''' \<or> (wants_2fa req \<and> \<not> truthy has_2fa0) then (Inl Unauthorized, st)
             else if (case grp of None \<Rightarrow> False | Some g \<Rightarrow> g \<noteq> '''' \<and> g \<notin> set groups0)
             then (Inl Forbidden,
                   st \<lparr> logger := logger st @
                          [(ERROR, not_member_message uid (case grp of None \<Rightarrow> '''' | Some g \<Rightarrow> g))] \<rparr>)
             else
               (let str_2fa = lower (str_flag has_2fa0);
                    headers0 = [(''X-Saml-User'', uid),
                                (''X-Saml-Groups'', join '':'' groups0),
                                (''X-Saml-2fa'', str_2fa)]
                in if wants_json req
                   then (Inr (Response
                           (JsonBody (JObj [(''user'', JStr uid),
                                            (''groups'', JArr (map JStr groups0)),
                                            (''two_factor'', json_flag has_2fa0)]))
                           200 (headers0 @ [(''Content-Type'', ''application/json'')])), st)
                   else (Inr (Response
                           (TextBody (''Logged in as: '' @ uid @ [CHR 0x0A] @ ''Groups: ''
                                      @ str_list groups0 @ [CHR 0x0A] @ ''2FA: '' @ str_2fa))
                           200 headers0), st)))"

section \<open>The parameters of the protocol library\<close>

text \<open>
  The object \<open>federated.SccaIdp(name)\<close> with the two attributes \<open>_saml_args\<close> may
  overwrite; \<open>None\<close> is an attribute left as the library made it.
\<close>

record idp_config =
  idp_name :: string
  sso_url :: "string option"
  x509_cert :: "string option"

text \<open>
  The keyword arguments built by \<open>_saml_args\<close>: \<open>idp = None\<close> is a dictionary without
  the key \<open>idp\<close>, \<open>two_factor\<close> is true when \<open>login_redirect\<close> has set that key.
\<close>

record saml_args_dict =
  entity_id :: string
  acs_url :: string
  idp :: "idp_config option"
  two_factor :: bool

definition POSTBACK_ROUTE :: string where
  "POSTBACK_ROUTE = ''/login''"

definition saml_args :: "request \<Rightarrow> error + saml_args_dict" where
  "saml_args req =
     (case urljoin (url_root req) (drop 1 POSTBACK_ROUTE) of
        Inl e \<Rightarrow> Inl e
      | Inr acs_default \<Rightarrow>
          (case (case header req ''X-Saml-Acs'' of
                   None \<Rightarrow> Inr acs_default
                 | Some h \<Rightarrow> urljoin (url_root req) h) of
             Inl e \<Rightarrow> Inl e
           | Inr acs \<Rightarrow>
               Inr \<lparr> entity_id = (case header req ''X-Saml-Entity-Id'' of
                                    None \<Rightarrow> butlast (url_root req)
                                  | Some h \<Rightarrow> h),
                      acs_url = acs,
                      idp = (case header req ''x-Saml-Idp'' of
                               None \<Rightarrow> None
                             | Some name \<Rightarrow>
                                 Some \<lparr> idp_name = name,
                                        sso_url = header req ''x-Saml-Idp-Url'',
                                        x509_cert = header req ''x-Saml-Idp-Cert'' \<rparr>),
                      two_factor = False \<rparr>))"

section \<open>The protocol library\<close>

text \<open>
  What \<open>uw_saml2.process_response\<close> returns on success: the attribute dictionary.
  \<open>attr\<close> holds the string-valued attributes, among them the one taken as user id;
  \<open>attr_groups\<close> and \<open>attr_two_factor\<close> are the keys \<open>groups\<close> and \<open>two_factor\<close>,
  \<open>None\<close> when the dictionary lacks the key.
\<close>

record attributes =
  attr :: "string \<rightharpoonup> string"
  attr_groups :: "string list option"
  attr_two_factor :: "bool option"

text \<open>
  The two operations of the library \<open>uw_saml2\<close>, which is not part of this program and is
  taken as given: \<open>login_redirect(return_to, **args)\<close> builds the URL at the identity
  provider, \<open>process_response(form, **args)\<close> validates the posted assertion. Either may
  raise.
\<close>

record uw_saml2 =
  uw_login_redirect :: "string \<Rightarrow> saml_args_dict \<Rightarrow> error + string"
  uw_process_response :: "(string \<rightharpoonup> string) \<Rightarrow> saml_args_dict \<Rightarrow> error + attributes"

section \<open>The login redirect view\<close>

definition conflict_message :: "string \<Rightarrow> string \<Rightarrow> string" where
  "conflict_message return_to rd_path =
     ''return_to supplied in both URI (/'' @ return_to @ '') and '' @ [CHR 0x27] @ ''rd''
       @ [CHR 0x27] @ '' query string field ('' @ rd_path @ ''), using rd value''"

text \<open>
  Lines 136 to 149 of \<open>login_redirect\<close>: the return destination handed to the library
  as \<open>return_to\<close>, computed from the path segment \<open>return_to\<close> of the route and from the
  query field \<open>rd\<close>.
\<close>

definition return_destination :: "request \<Rightarrow> string \<Rightarrow> app_state \<Rightarrow> (error + string) \<times> app_state" where
  "return_destination req return_to st =
     (case (case map_of (args req) ''rd'' of
              Some rd \<Rightarrow>
                (case urlparse rd '''' of
                   Inl e \<Rightarrow> Inl e
                 | Inr rd_parts \<Rightarrow>
                     Inr (''?'' @ query rd_parts, url_path rd_parts,
                          (if return_to \<noteq> ''''
                           then st \<lparr> logger := logger st @
                                  [(WARNING, conflict_message return_to (url_path rd_parts))] \<rparr>
                           else st)))
            | None \<Rightarrow> Inr (''?'' @ query_string req, ''/'' @ return_to, st)) of
        Inl e \<Rightarrow> (Inl e, st)
      | Inr (query_string0, return_to1, st1) \<Rightarrow>
          (let query_string1 = (if query_string0 = ''?'' then '''' else query_string0)
           in (Inr (return_to1 @ query_string1), st1)))"

definition login_redirect :: "uw_saml2 \<Rightarrow> request \<Rightarrow> string \<Rightarrow> app_state \<Rightarrow> (error + response) \<times> app_state" where
  "login_redirect lib req return_to st =
     (case return_destination req return_to st of
        (Inl e, st1) \<Rightarrow> (Inl e, st1)
      | (Inr return_to1, st1) \<Rightarrow>
          (case saml_args req of
             Inl e \<Rightarrow> (Inl e, st1)
           | Inr args0 \<Rightarrow>
               (let args1 = (if startswith (path req) ''/2fa/''
                             then args0 \<lparr> two_factor := True \<rparr> else args0)
                in case uw_login_redirect lib return_to1 args1 of
                     Inl e \<Rightarrow> (Inl e, st1)
                   | Inr url \<Rightarrow> (Inr (Redirect url), st1))))"

section \<open>The callback view\<close>

text \<open>
  The attribute read as user id: the one named by the header \<open>X-Saml-Idp-Id-Attr\<close>,
  else \<open>uwnetid\<close>.
\<close>

definition id_attr :: "request \<Rightarrow> string" where
  "id_attr req = (case header req ''x-Saml-Idp-Id-Attr'' of
                    Some name \<Rightarrow> name
                  | None \<Rightarrow> ''uwnetid'')"

definition login :: "uw_saml2 \<Rightarrow> request \<Rightarrow> app_state \<Rightarrow> (error + response) \<times> app_state" where
  "login lib req st =
     (let st0 = st \<lparr> session := empty_session \<rparr>
      in if http_method req = ''GET'' then login_redirect lib req '''' st0
         else
           (case saml_args req of
              Inl e \<Rightarrow> (Inl e, st0)
            | Inr args0 \<Rightarrow>
                (case uw_process_response lib (form req) args0 of
                   Inl e \<Rightarrow> (Inl e, st0)
                 | Inr attributes0 \<Rightarrow>
                     (case attr attributes0 (id_attr req) of
                        None \<Rightarrow> (Inl KeyError, st0)
                      | Some uid \<Rightarrow>
                          (let st1 = st0 \<lparr> session :=
                                      \<lparr> userid = Some uid,
                                        groups = Some (case attr_groups attributes0 of
                                                         None \<Rightarrow> []
                                                       | Some gs \<Rightarrow> gs),
                                        has_2fa = Some (case attr_two_factor attributes0 of
                                                          None \<Rightarrow> NoneVal
                                                        | Some b \<Rightarrow> BoolVal b) \<rparr> \<rparr>
                           in case form req ''RelayState'' of
                                None \<Rightarrow> status None req st1
                              | Some relay_state \<Rightarrow>
                                  if relay_state \<noteq> '''' \<and> startswith relay_state ''/''
                                  then (case urljoin (url_root req) relay_state of
                                          Inl e \<Rightarrow> (Inl e, st1)
                                        | Inr url \<Rightarrow> (Inr (Redirect url), st1))
                                  else status None req st1)))))"

definition logout :: "app_state \<Rightarrow> (error + response) \<times> app_state" where
  "logout st = (Inr (Response (TextBody ''Logged out'') 200 []), st \<lparr> session := empty_session \<rparr>)"

section \<open>The routes\<close>

text \<open>
  The view a request path is routed to by the \<open>@app.route\<close> rules, with the arguments
  the rule extracts. A \<open><group>\<close> segment is non-empty and has no slash; a
  \<open><path:return_to>\<close> remainder is non-empty and does not begin with a slash.
  \<open>None\<close>: no rule matches the path as it is.
\<close>

datatype endpoint =
    EStatus "string option"
  | ELoginRedirect string
  | ELogin
  | ELogout
  | EHealthz

definition match_status :: "string list \<Rightarrow> endpoint option" where
  "match_status segs =
     (case segs of
        [a, b] \<Rightarrow>
          if a = '''' \<and> b = ''status'' then Some (EStatus None) else None
      | [a, b, c] \<Rightarrow>
          if a = '''' \<and> b = ''status'' \<and> c = ''2fa'' then Some (EStatus None) else None
      | [a, b, c, d] \<Rightarrow>
          if a = '''' \<and> b = ''status'' \<and> c = ''group'' \<and> d \<noteq> ''''
          then Some (EStatus (Some d)) else None
      | [a, b, c, d, e] \<Rightarrow>
          if a = '''' \<and> b = ''status'' \<and> c = ''group'' \<and> d \<noteq> '''' \<and> e = ''2fa''
          then Some (EStatus (Some d))
          else if a = '''' \<and> b = ''status'' \<and> c = ''2fa'' \<and> d = ''group'' \<and> e \<noteq> ''''
          then Some (EStatus (Some e))
          else None
      | _ \<Rightarrow> None)"

definition match_return_to :: "string \<Rightarrow> string \<Rightarrow> endpoint option" where
  "match_return_to prefix p =
     (if startswith p prefix
      then (let rest = drop (length prefix) p
            in if rest = '''' \<or> take 1 rest \<noteq> ''/'' then Some (ELoginRedirect rest) else None)
      else None)"

definition url_map :: "string \<Rightarrow> endpoint option" where
  "url_map p =
     (if p = ''/'' then Some EHealthz
      else if p = POSTBACK_ROUTE then Some ELogin
      else if p = ''/logout'' then Some ELogout
      else if startswith p ''/login/'' then match_return_to ''/login/'' p
      else if startswith p ''/2fa/'' then match_return_to ''/2fa/'' p
      else match_status (split_on CHR ''/'' p))"

section \<open>Example inputs\<close>

text \<open>A request for \<open>/status\<close> at the service \<open>https://sp.example.org/\<close>, without headers.\<close>

definition example_request :: request where
  "example_request =
     \<lparr> http_method = ''GET'', url_root = ''https://sp.example.org/'', path = ''/status'',
       query_string = '''', args = [], headers = Map.empty, form = Map.empty,
       accept_mimetypes = [] \<rparr>"

text \<open>The session of user \<open>abc\<close>, member of \<open>staff\<close>, signed in without a second factor.\<close>

definition example_state :: app_state where
  "example_state =
     \<lparr> session = \<lparr> userid = Some ''abc'', groups = Some [''staff''],
                   has_2fa = Some (BoolVal False) \<rparr>,
       logger = [] \<rparr>"

text \<open>
  A protocol library that accepts the form whose \<open>SAMLResponse\<close> field is \<open>valid\<close>, with
  the attributes of user \<open>abc\<close>, and rejects every other form.
\<close>

definition example_lib :: uw_saml2 where
  "example_lib =
     \<lparr> uw_login_redirect =
         (\<lambda>return_to a. Inr (''https://idp.example.org/sso?RelayState='' @ return_to)),
       uw_process_response =
         (\<lambda>f a. if f ''SAMLResponse'' = Some ''valid''
                then Inr \<lparr> attr = [''uwnetid'' \<mapsto> ''abc''], attr_groups = Some [''staff''],
                           attr_two_factor = Some True \<rparr>
                else Inl InvalidAssertion) \<rparr>"

text \<open>The request \<open>GET /login/dashboard?tab=2\<close>.\<close>

definition dashboard_request :: request where
  "dashboard_request =
     example_request \<lparr> path := ''/login/dashboard'', query_string := ''tab=2'',
                        args := [(''tab'', ''2'')] \<rparr>"


text \<open>A \<open>POST\<close> to the callback with the given form.\<close>

definition post_request :: "(string \<rightharpoonup> string) \<Rightarrow> request" where
  "post_request f = example_request \<lparr> http_method := ''POST'', path := ''/login'', form := f \<rparr>"

text \<open>A request for \<open>/login/dashboard\<close> with the query field \<open>rd\<close>.\<close>

definition rd_request :: "string \<Rightarrow> request" where
  "rd_request rd =
     example_request \<lparr> path := ''/login/dashboard'', query_string := ''rd='' @ rd,
                        args := [(''rd'', rd)] \<rparr>"

text \<open>The parameters \<open>_saml_args\<close> builds for \<open>example_request\<close>.\<close>

definition default_args :: saml_args_dict where
  "default_args =
     \<lparr> entity_id = ''https://sp.example.org'', acs_url = ''https://sp.example.org/login'',
       idp = None, two_factor = False \<rparr>"

section \<open>The authorization decision\<close>










section \<open>The callback and the session\<close>


lemma login_redirect_state:
  "snd (login_redirect lib req return_to st) = snd (return_destination req return_to st)"
  by (auto simp: login_redirect_def Let_def split: prod.splits sum.splits)

lemma example_saml_args:
  "saml_args (post_request f) = Inr default_args"
  "saml_args example_request = Inr default_args"
  "saml_args dashboard_request = Inr default_args"
  by (simp_all add: saml_args_def post_request_def dashboard_request_def example_request_def
        header_def default_args_def POSTBACK_ROUTE_def)
     code_simp+



text \<open>
  Claim C3, at the input where the code departs from it. The view redirects when the
  posted \<open>RelayState\<close> is non-empty and begins with \<open>/\<close>, and the target is
  \<open>urljoin(request.url_root, RelayState)\<close>. A relay state that begins with two slashes
  passes that test and names a host of its own: for the service at
  \<open>https://sp.example.org/\<close>, an accepted assertion posted with the relay state
  \<open>//evil.example/x\<close> is answered by a redirect to \<open>https://evil.example/x\<close>, whose host
  is not the service's.
\<close>

theorem login_relay_state_foreign_origin:
  assumes "http_method req = ''POST''"
      and "url_root req = ''https://sp.example.org/''"
      and "saml_args req = Inr a"
      and "uw_process_response lib (form req) a = Inr attrs"
      and "attr attrs (id_attr req) = Some uid"
      and "form req ''RelayState'' = Some ''//evil.example/x''"
  shows "fst (login lib req st) = Inr (Redirect ''https://evil.example/x'')
       \<and> urlparse ''https://evil.example/x'' '''' =
           Inr \<lparr> scheme = ''https'', netloc = ''evil.example'', url_path = ''/x'',
                  params = '''', query = '''', fragment = '''' \<rparr>
       \<and> urlparse (url_root req) '''' =
           Inr \<lparr> scheme = ''https'', netloc = ''sp.example.org'', url_path = ''/'',
                  params = '''', query = '''', fragment = '''' \<rparr>"
proof -
  have "startswith ''//evil.example/x'' ''/''"
    and "urljoin ''https://sp.example.org/'' ''//evil.example/x'' = Inr ''https://evil.example/x''"
    by code_simp+
  then have l: "fst (login lib req st) = Inr (Redirect ''https://evil.example/x'')"
    using assms by (simp add: login_def Let_def)
  have "urlparse ''https://evil.example/x'' '''' =
           Inr \<lparr> scheme = ''https'', netloc = ''evil.example'', url_path = ''/x'',
                  params = '''', query = '''', fragment = '''' \<rparr>"
    and "urlparse ''https://sp.example.org/'' '''' =
           Inr \<lparr> scheme = ''https'', netloc = ''sp.example.org'', url_path = ''/'',
                  params = '''', query = '''', fragment = '''' \<rparr>"
    by code_simp+
  with l assms(2) show ?thesis by simp
qed

theorem login_relay_state_foreign_origin_witness:
  "fst (login example_lib
          (post_request [''SAMLResponse'' \<mapsto> ''valid'', ''RelayState'' \<mapsto> ''//evil.example/x''])
          example_state)
   = Inr (Redirect ''https://evil.example/x'')"
proof -
  let ?req = "post_request [''SAMLResponse'' \<mapsto> ''valid'', ''RelayState'' \<mapsto> ''//evil.example/x'']"
  let ?attrs = "\<lparr> attr = [''uwnetid'' \<mapsto> ''abc''], attr_groups = Some [''staff''],
                  attr_two_factor = Some True \<rparr>"
  have m: "http_method ?req = ''POST''" and r: "url_root ?req = ''https://sp.example.org/''"
    and p: "uw_process_response example_lib (form ?req) default_args = Inr ?attrs"
    and u: "attr ?attrs (id_attr ?req) = Some ''abc''"
    and f: "form ?req ''RelayState'' = Some ''//evil.example/x''"
    by (simp_all add: post_request_def example_request_def example_lib_def id_attr_def header_def)
  from login_relay_state_foreign_origin[OF m r example_saml_args(1) p u f, of example_state]
  show ?thesis by blast
qed

section \<open>The parameter resolver\<close>

lemma urlparse_login: "\<exists>p. urlparse ''login'' s = Inr p"
  by (simp add: urlparse_def urlsplit_def Let_def c0_control_or_space_def unsafe_url_byte_def
        split1_def)

lemma urljoin_total:
  assumes "urlparse base '''' = Inr b" and "urlparse url (scheme b) = Inr u"
  shows "\<exists>r. urljoin base url = Inr r"
  using assms by (simp add: urljoin_def Let_def)

lemma saml_args_acs:
  assumes "saml_args req = Inr a"
  shows "urljoin (url_root req)
           (case header req ''X-Saml-Acs'' of None \<Rightarrow> ''login'' | Some h \<Rightarrow> h) = Inr (acs_url a)"
  using assms
  by (auto simp: saml_args_def POSTBACK_ROUTE_def split: sum.splits option.splits)

lemma saml_args_succeeds:
  assumes "\<exists>r. urljoin (url_root req) ''login'' = Inr r"
      and "\<And>h. header req ''X-Saml-Acs'' = Some h \<Longrightarrow> \<exists>r. urljoin (url_root req) h = Inr r"
  shows "\<exists>a. saml_args req = Inr a"
  using assms
  by (auto simp: saml_args_def POSTBACK_ROUTE_def split: sum.splits option.splits)

lemma header_name_case:
  "header req ''x-Saml-Idp'' = header req ''X-Saml-Idp''"
  "header req ''x-Saml-Idp-Url'' = header req ''X-Saml-Idp-Url''"
  "header req ''x-Saml-Idp-Cert'' = header req ''X-Saml-Idp-Cert''"
proof -
  have "lower ''x-Saml-Idp'' = lower ''X-Saml-Idp''"
       "lower ''x-Saml-Idp-Url'' = lower ''X-Saml-Idp-Url''"
       "lower ''x-Saml-Idp-Cert'' = lower ''X-Saml-Idp-Cert''"
    by code_simp+
  then show "header req ''x-Saml-Idp'' = header req ''X-Saml-Idp''"
    "header req ''x-Saml-Idp-Url'' = header req ''X-Saml-Idp-Url''"
    "header req ''x-Saml-Idp-Cert'' = header req ''X-Saml-Idp-Cert''"
    by (simp_all add: header_def)
qed

text \<open>
  Claim C4, amended. For a request with the callback URL override header, the
  assertion-consumer URL is \<open>urljoin\<close> of the request's root URL and the header value,
  and the resolver rejects no override: whenever the root URL and the header value
  parse, it returns its parameters. An override with a scheme other than the root's is
  taken unchanged, and an override on the root's scheme that names a host of its own
  keeps that host.
\<close>

theorem saml_args_acs_override:
  assumes "header req ''X-Saml-Acs'' = Some h"
      and "urlparse (url_root req) '''' = Inr b"
      and "urlparse h (scheme b) = Inr u"
  shows "\<exists>a. saml_args req = Inr a
           \<and> urljoin (url_root req) h = Inr (acs_url a)
           \<and> (url_root req \<noteq> '''' \<and> h \<noteq> '''' \<and> scheme u \<noteq> scheme b \<longrightarrow> acs_url a = h)
           \<and> (url_root req \<noteq> '''' \<and> h \<noteq> '''' \<and> scheme u = scheme b \<and>
               scheme u \<in> set uses_relative \<and> scheme u \<in> set uses_netloc \<and> netloc u \<noteq> ''''
               \<longrightarrow> acs_url a = urlunparse u)"
proof -
  obtain p where p: "urlparse ''login'' (scheme b) = Inr p"
    using urlparse_login by blast
  have "\<exists>r. urljoin (url_root req) ''login'' = Inr r"
    using urljoin_total[OF assms(2) p] .
  moreover have "\<exists>r. urljoin (url_root req) h = Inr r"
    using urljoin_total[OF assms(2) assms(3)] .
  ultimately obtain a where a: "saml_args req = Inr a"
    using saml_args_succeeds[of req] assms(1) by auto
  have j: "urljoin (url_root req) h = Inr (acs_url a)"
    using saml_args_acs[OF a] assms(1) by simp
  have d: "url_root req \<noteq> '''' \<Longrightarrow> h \<noteq> '''' \<Longrightarrow> scheme u \<noteq> scheme b \<Longrightarrow> acs_url a = h"
    using j assms(2,3) by (simp add: urljoin_def)
  have n: "url_root req \<noteq> '''' \<Longrightarrow> h \<noteq> '''' \<Longrightarrow> scheme u = scheme b \<Longrightarrow>
           scheme u \<in> set uses_relative \<Longrightarrow> scheme u \<in> set uses_netloc \<Longrightarrow> netloc u \<noteq> '''' \<Longrightarrow>
           acs_url a = urlunparse u"
    using j assms(2,3) by (simp add: urljoin_def)
  from a j d n show ?thesis by blast
qed

theorem saml_args_acs_override_witness:
  "\<exists>a. saml_args (example_request \<lparr> headers := [''x-saml-acs'' \<mapsto> ''/saml/acs''] \<rparr>) = Inr a
       \<and> acs_url a = ''https://sp.example.org/saml/acs''"
proof -
  let ?req = "example_request \<lparr> headers := [''x-saml-acs'' \<mapsto> ''/saml/acs''] \<rparr>"
  let ?b = "\<lparr> scheme = ''https'', netloc = ''sp.example.org'', url_path = ''/'',
              params = '''', query = '''', fragment = '''' \<rparr>"
  let ?u = "\<lparr> scheme = ''https'', netloc = '''', url_path = ''/saml/acs'',
              params = '''', query = '''', fragment = '''' \<rparr>"
  have h: "header ?req ''X-Saml-Acs'' = Some ''/saml/acs''"
    and b: "urlparse (url_root ?req) '''' = Inr ?b"
    and u: "urlparse ''/saml/acs'' (scheme ?b) = Inr ?u"
    and j: "urljoin (url_root ?req) ''/saml/acs'' = Inr ''https://sp.example.org/saml/acs''"
    by code_simp+
  from saml_args_acs_override[OF h b u] j show ?thesis
    by auto
qed

theorem saml_args_acs_foreign_counterexample:
  "saml_args (example_request \<lparr> headers := [''x-saml-acs'' \<mapsto> ''https://evil.example/acs''] \<rparr>) =
     Inr (default_args \<lparr> acs_url := ''https://evil.example/acs'' \<rparr>)
   \<and> urlparse ''https://evil.example/acs'' '''' =
       Inr \<lparr> scheme = ''https'', netloc = ''evil.example'', url_path = ''/acs'',
              params = '''', query = '''', fragment = '''' \<rparr>
   \<and> urlparse (url_root example_request) '''' =
       Inr \<lparr> scheme = ''https'', netloc = ''sp.example.org'', url_path = ''/'',
              params = '''', query = '''', fragment = '''' \<rparr>"
  by code_simp

text \<open>
  Claim C9, amended. Whenever the resolver returns its parameters: the entity id is the
  value of \<open>X-Saml-Entity-Id\<close>, or the root URL without its last character when the
  header is missing; the callback URL is \<open>urljoin\<close> of the root URL and the value of
  \<open>X-Saml-Acs\<close>, or of \<open>login\<close> when the header is missing; each of the two depends
  on its own header only. The identity provider override exists exactly when the header
  \<open>X-Saml-Idp\<close> is present, and only then do \<open>X-Saml-Idp-Url\<close> and
  \<open>X-Saml-Idp-Cert\<close> take effect, each on its own attribute. With none of the headers
  the parameters are the defaults.
\<close>

theorem saml_args_overrides:
  assumes "saml_args req = Inr a"
  shows "entity_id a = (case header req ''X-Saml-Entity-Id'' of
                          None \<Rightarrow> butlast (url_root req) | Some h \<Rightarrow> h)
       \<and> urljoin (url_root req)
            (case header req ''X-Saml-Acs'' of None \<Rightarrow> ''login'' | Some h \<Rightarrow> h) = Inr (acs_url a)
       \<and> idp a = (case header req ''X-Saml-Idp'' of
                    None \<Rightarrow> None
                  | Some name \<Rightarrow> Some \<lparr> idp_name = name,
                                         sso_url = header req ''X-Saml-Idp-Url'',
                                         x509_cert = header req ''X-Saml-Idp-Cert'' \<rparr>)
       \<and> two_factor a = False"
proof -
  have e: "entity_id a = (case header req ''X-Saml-Entity-Id'' of
                          None \<Rightarrow> butlast (url_root req) | Some h \<Rightarrow> h)"
    using assms by (auto simp: saml_args_def split: sum.splits)
  have i: "idp a = (case header req ''X-Saml-Idp'' of
                    None \<Rightarrow> None
                  | Some name \<Rightarrow> Some \<lparr> idp_name = name,
                                         sso_url = header req ''X-Saml-Idp-Url'',
                                         x509_cert = header req ''X-Saml-Idp-Cert'' \<rparr>)"
    using assms by (auto simp: saml_args_def header_name_case split: sum.splits option.splits)
  have t: "two_factor a = False"
    using assms by (auto simp: saml_args_def split: sum.splits)
  from e saml_args_acs[OF assms] i t show ?thesis by blast
qed

theorem saml_args_overrides_witness:
  "\<exists>a. saml_args (example_request
                    \<lparr> headers := [''x-saml-idp'' \<mapsto> ''partner'',
                                   ''x-saml-idp-url'' \<mapsto> ''https://idp.example.org/sso''] \<rparr>) = Inr a
      \<and> entity_id a = ''https://sp.example.org''
      \<and> idp a = Some \<lparr> idp_name = ''partner'', sso_url = Some ''https://idp.example.org/sso'',
                        x509_cert = None \<rparr>"
proof -
  let ?req = "example_request
                \<lparr> headers := [''x-saml-idp'' \<mapsto> ''partner'',
                               ''x-saml-idp-url'' \<mapsto> ''https://idp.example.org/sso''] \<rparr>"
  let ?a = "default_args \<lparr> idp := Some \<lparr> idp_name = ''partner'',
                                          sso_url = Some ''https://idp.example.org/sso'',
                                          x509_cert = None \<rparr> \<rparr>"
  have s: "saml_args ?req = Inr ?a"
    and h: "header ?req ''X-Saml-Entity-Id'' = None"
          "header ?req ''X-Saml-Idp'' = Some ''partner''"
          "header ?req ''X-Saml-Idp-Url'' = Some ''https://idp.example.org/sso''"
          "header ?req ''X-Saml-Idp-Cert'' = None"
          "butlast (url_root ?req) = ''https://sp.example.org''"
    by code_simp+
  from saml_args_overrides[OF s] h s show ?thesis
    by auto
qed

theorem saml_args_idp_url_alone_counterexample:
  "saml_args (example_request
                \<lparr> headers := [''x-saml-idp-url'' \<mapsto> ''https://idp.example.org/sso'',
                               ''x-saml-idp-cert'' \<mapsto> ''MIIC''] \<rparr>) = Inr default_args
   \<and> saml_args example_request = Inr default_args
   \<and> idp default_args = None"
  by code_simp

section \<open>The return destination\<close>

lemma return_destination_rd:
  assumes "map_of (args req) ''rd'' = Some rd" and "urlparse rd '''' = Inr rd_parts"
  shows "return_destination req return_to st =
           (Inr (url_path rd_parts @ (if query rd_parts = '''' then '''' else ''?'' @ query rd_parts)),
            if return_to \<noteq> ''''
            then st \<lparr> logger := logger st @
                   [(WARNING, conflict_message return_to (url_path rd_parts))] \<rparr>
            else st)"
  using assms by (simp add: return_destination_def Let_def)

lemma return_destination_path_segment:
  assumes "map_of (args req) ''rd'' = None"
  shows "return_destination req return_to st =
           (Inr ((''/'' @ return_to) @
                 (if query_string req = '''' then '''' else ''?'' @ query_string req)), st)"
  using assms by (simp add: return_destination_def Let_def)

lemma login_redirect_result:
  assumes "fst (return_destination req return_to st) = Inr d" and "saml_args req = Inr a"
  shows "fst (login_redirect lib req return_to st) =
           (case uw_login_redirect lib d
                   (if startswith (path req) ''/2fa/'' then a \<lparr> two_factor := True \<rparr> else a) of
              Inl e \<Rightarrow> Inl e
            | Inr url \<Rightarrow> Inr (Redirect url))"
  using assms
  by (cases "return_destination req return_to st")
     (auto simp: login_redirect_def Let_def split: sum.splits)

lemma dashboard_request_facts:
  "url_map (path dashboard_request) = Some (ELoginRedirect ''dashboard'')"
  "map_of (args dashboard_request) ''rd'' = None"
  "query_string dashboard_request = ''tab=2''"
  "\<not> startswith (path dashboard_request) ''/2fa/''"
  by code_simp+

lemma rd_request_args: "map_of (args (rd_request rd)) ''rd'' = Some rd"
  by (simp add: rd_request_def)

text \<open>
  Claim C5, amended. For a login-redirect request with a non-empty path segment and a
  query field \<open>rd\<close> that \<open>urlparse\<close> accepts, the return destination is the one
  computed without the path segment, namely the path of the parsed \<open>rd\<close> followed, when
  its query is non-empty, by \<open>?\<close> and the query; and the request appends exactly one
  record, the conflict warning, to the log.
\<close>

theorem return_destination_rd_precedence:
  assumes "map_of (args req) ''rd'' = Some rd"
      and "urlparse rd '''' = Inr rd_parts"
      and "return_to \<noteq> ''''"
  shows "fst (return_destination req return_to st) = fst (return_destination req '''' st)
       \<and> fst (return_destination req return_to st) =
           Inr (url_path rd_parts @ (if query rd_parts = '''' then '''' else ''?'' @ query rd_parts))
       \<and> logger (snd (return_destination req return_to st)) =
           logger st @ [(WARNING, conflict_message return_to (url_path rd_parts))]
       \<and> logger (snd (login_redirect lib req return_to st)) =
           logger st @ [(WARNING, conflict_message return_to (url_path rd_parts))]
       \<and> logger (snd (return_destination req '''' st)) = logger st"
  using assms
  by (simp add: return_destination_rd[OF assms(1,2)] login_redirect_state)

theorem return_destination_rd_precedence_witness:
  "fst (return_destination (rd_request ''https://app.example.org/reports?year=2024'')
          ''dashboard'' example_state) = Inr ''/reports?year=2024''
   \<and> length (logger (snd (return_destination
          (rd_request ''https://app.example.org/reports?year=2024'')
          ''dashboard'' example_state))) = 1"
proof -
  let ?req = "rd_request ''https://app.example.org/reports?year=2024''"
  let ?p = "\<lparr> scheme = ''https'', netloc = ''app.example.org'', url_path = ''/reports'',
              params = '''', query = ''year=2024'', fragment = '''' \<rparr>"
  have p: "urlparse ''https://app.example.org/reports?year=2024'' '''' = Inr ?p"
    by code_simp
  have n: "''dashboard'' \<noteq> ''''" and l: "logger example_state = []"
    by (simp_all add: example_state_def)
  note T = return_destination_rd_precedence[OF rd_request_args p n, of example_state example_lib]
  have d: "fst (return_destination ?req ''dashboard'' example_state) = Inr ''/reports?year=2024''"
    using T[THEN conjunct2, THEN conjunct1] by simp
  have g: "length (logger (snd (return_destination ?req ''dashboard'' example_state))) = 1"
    using T[THEN conjunct2, THEN conjunct2, THEN conjunct1] l by simp
  from d g show ?thesis by blast
qed

theorem return_destination_rd_unparseable_counterexample:
  "urlparse ''//['' '''' = Inl ValueError
   \<and> return_destination (rd_request ''//['') ''dashboard'' example_state
       = (Inl ValueError, example_state)
   \<and> logger example_state = []"
  by code_simp

text \<open>
  Claim C6, amended. Without a query field \<open>rd\<close> the return destination begins with
  \<open>/\<close>. With a field \<open>rd\<close> that \<open>urlparse\<close> accepts, the return destination begins
  with \<open>/\<close> exactly when the path of the parsed \<open>rd\<close> does.
\<close>

theorem return_destination_leading_slash:
  "(map_of (args req) ''rd'' = None \<longrightarrow>
      (\<exists>d. fst (return_destination req return_to st) = Inr d \<and> startswith d ''/''))
   \<and> (\<forall>rd rd_parts. map_of (args req) ''rd'' = Some rd \<and> urlparse rd '''' = Inr rd_parts \<longrightarrow>
        (\<exists>d. fst (return_destination req return_to st) = Inr d \<and>
             (startswith d ''/'' \<longleftrightarrow> startswith (url_path rd_parts) ''/'')))"
proof -
  have a: "map_of (args req) ''rd'' = None \<Longrightarrow>
      \<exists>d. fst (return_destination req return_to st) = Inr d \<and> startswith d ''/''"
    by (simp add: return_destination_path_segment startswith_def)
  have b: "map_of (args req) ''rd'' = Some rd \<Longrightarrow> urlparse rd '''' = Inr rd_parts \<Longrightarrow>
        \<exists>d. fst (return_destination req return_to st) = Inr d \<and>
             (startswith d ''/'' \<longleftrightarrow> startswith (url_path rd_parts) ''/'')" for rd rd_parts
    by (cases "url_path rd_parts") (simp_all add: return_destination_rd startswith_def)
  from a b show ?thesis by blast
qed

theorem return_destination_leading_slash_witness:
  "fst (return_destination (example_request \<lparr> path := ''/login/a/b'' \<rparr>) ''a/b'' example_state)
     = Inr ''/a/b''"
proof -
  let ?req = "example_request \<lparr> path := ''/login/a/b'' \<rparr>"
  have "map_of (args ?req) ''rd'' = None"
    and "fst (return_destination ?req ''a/b'' example_state) = Inr ''/a/b''"
    by code_simp+
  with return_destination_leading_slash[of ?req "''a/b''" example_state]
  show ?thesis by blast
qed

theorem return_destination_rd_no_slash_counterexample:
  "fst (return_destination (rd_request ''dashboard?tab=2'') '''' example_state)
     = Inr ''dashboard?tab=2''
   \<and> \<not> startswith ''dashboard?tab=2'' ''/''"
  by code_simp

text \<open>
  Claim C7. The return destination is the return path followed, when the return query is
  non-empty, by \<open>?\<close> and the query, and by nothing when it is empty: the path is \<open>/\<close>
  and the path segment with the raw query string when there is no field \<open>rd\<close>, and
  the path and query of the parsed \<open>rd\<close> otherwise. It is the \<open>return_to\<close> argument
  handed to the library's \<open>login_redirect\<close>. The request \<open>/login/dashboard?tab=2\<close> is
  routed with the path segment \<open>dashboard\<close> and hands \<open>/dashboard?tab=2\<close> to the
  library.
\<close>

theorem return_destination_concat:
  "(map_of (args req) ''rd'' = None \<longrightarrow>
      fst (return_destination req return_to st) =
        Inr ((''/'' @ return_to) @
             (if query_string req = '''' then '''' else ''?'' @ query_string req)))
   \<and> (\<forall>rd rd_parts. map_of (args req) ''rd'' = Some rd \<and> urlparse rd '''' = Inr rd_parts \<longrightarrow>
        fst (return_destination req return_to st) =
          Inr (url_path rd_parts @
               (if query rd_parts = '''' then '''' else ''?'' @ query rd_parts)))
   \<and> (\<forall>d a. fst (return_destination req return_to st) = Inr d \<and> saml_args req = Inr a \<longrightarrow>
        fst (login_redirect lib req return_to st) =
          (case uw_login_redirect lib d
                  (if startswith (path req) ''/2fa/'' then a \<lparr> two_factor := True \<rparr> else a) of
             Inl e \<Rightarrow> Inl e
           | Inr url \<Rightarrow> Inr (Redirect url)))
   \<and> url_map (path dashboard_request) = Some (ELoginRedirect ''dashboard'')
   \<and> fst (login_redirect lib dashboard_request ''dashboard'' st) =
       (case uw_login_redirect lib ''/dashboard?tab=2'' default_args of
          Inl e \<Rightarrow> Inl e
        | Inr url \<Rightarrow> Inr (Redirect url))"
proof -
  have d: "fst (return_destination dashboard_request ''dashboard'' st) = Inr ''/dashboard?tab=2''"
    by (simp add: return_destination_path_segment dashboard_request_facts)
  have e: "fst (login_redirect lib dashboard_request ''dashboard'' st) =
       (case uw_login_redirect lib ''/dashboard?tab=2'' default_args of
          Inl e \<Rightarrow> Inl e
        | Inr url \<Rightarrow> Inr (Redirect url))"
    using login_redirect_result[OF d example_saml_args(3), of lib]
    by (simp add: dashboard_request_facts)
  show ?thesis
    using e dashboard_request_facts(1)
    by (simp add: return_destination_path_segment return_destination_rd login_redirect_result)
qed

theorem return_destination_concat_witness:
  "fst (return_destination (example_request \<lparr> path := ''/login/dashboard'' \<rparr>)
          ''dashboard'' example_state) = Inr ''/dashboard''
   \<and> fst (login_redirect example_lib dashboard_request ''dashboard'' example_state) =
       Inr (Redirect ''https://idp.example.org/sso?RelayState=/dashboard?tab=2'')"
proof -
  let ?req = "example_request \<lparr> path := ''/login/dashboard'' \<rparr>"
  have a: "map_of (args ?req) ''rd'' = None" and q: "query_string ?req = ''''"
    by (simp_all add: example_request_def)
  note T = return_destination_concat[of ?req "''dashboard''" example_state example_lib]
  have d: "fst (return_destination ?req ''dashboard'' example_state) = Inr ''/dashboard''"
    using T[THEN conjunct1] a q by simp
  have e: "fst (login_redirect example_lib dashboard_request ''dashboard'' example_state) =
       Inr (Redirect ''https://idp.example.org/sso?RelayState=/dashboard?tab=2'')"
    using T[THEN conjunct2, THEN conjunct2, THEN conjunct2, THEN conjunct2]
    by (simp add: example_lib_def)
  from d e show ?thesis by blast
qed

section \<open>The status response\<close>





end
